theory Spec2Isabelle
  imports Main
begin

section \<open>Go values\<close>

text \<open>
  A Go string and the contents of a \<^verbatim>\<open>[]byte\<close> are byte sequences: \<open>char list\<close>.
  A Go slice can be \<^verbatim>\<open>nil\<close>, which the package tests for (\<^verbatim>\<open>data == nil\<close>), so a slice
  is an optional list: \<open>None\<close> is the nil slice, \<open>Some []\<close> an allocated empty one.
\<close>

type_synonym bytes = "char list"

type_synonym 'a slice = "'a list option"

definition elems :: "'a slice \<Rightarrow> 'a list" where
  "elems s = (case s of None \<Rightarrow> [] | Some xs \<Rightarrow> xs)"

text \<open>\<^verbatim>\<open>append(s, x)\<close>: the result is never nil.\<close>

definition append_slice :: "'a slice \<Rightarrow> 'a \<Rightarrow> 'a slice" where
  "append_slice s x = Some (elems s @ [x])"

definition quote :: char where
  "quote = CHR 0x22"

definition newline :: char where
  "newline = CHR 0x0A"

subsection \<open>The strings package\<close>

text \<open>\<^verbatim>\<open>strings.HasPrefix(s, prefix)\<close>.\<close>

definition HasPrefix :: "string \<Rightarrow> string \<Rightarrow> bool" where
  "HasPrefix s pre = (take (length pre) s = pre)"

text \<open>
  \<^verbatim>\<open>strings.Trim(s, cutset)\<close> removes the leading and the trailing characters that occur
  in the cutset. The package only calls it with the ASCII cutset of one double quote, for
  which trimming code points and trimming bytes agree.
\<close>

definition Trim :: "string \<Rightarrow> string \<Rightarrow> string" where
  "Trim s cutset =
     rev (dropWhile (\<lambda>c. c \<in> set cutset) (rev (dropWhile (\<lambda>c. c \<in> set cutset) s)))"

text \<open>\<^verbatim>\<open>strings.Join(elems, sep)\<close>.\<close>

fun Join :: "string list \<Rightarrow> string \<Rightarrow> string" where
  "Join [] sep = []"
| "Join [x] sep = x"
| "Join (x # y # ys) sep = x @ sep @ Join (y # ys) sep"

subsection \<open>The verb \<^verbatim>\<open>%d\<close> of the fmt package\<close>

definition digit :: "nat \<Rightarrow> char" where
  "digit n = ''0123456789'' ! (n mod 10)"

fun decimal :: "nat \<Rightarrow> string" where
  "decimal n = (if n < 10 then [digit n] else decimal (n div 10) @ [digit n])"

declare decimal.simps [simp del]

definition itoa :: "int \<Rightarrow> string" where
  "itoa i = (if i < 0 then CHR ''-'' # decimal (nat (- i)) else decimal (nat i))"

section \<open>The schema engine, as the package sees it\<close>

text \<open>
  The engine (cuelang.org/go) is not part of the package. Its error values are modelled by
  what the package observes of them: \<^verbatim>\<open>token.Pos\<close> by its line and column, an
  \<^verbatim>\<open>errors.Error\<close> by its positions, its path and its text, and an error returned by the
  engine by the list \<^verbatim>\<open>errors.Errors(err)\<close> and the text \<^verbatim>\<open>err.Error()\<close>.
\<close>

datatype token_Pos = Pos (Line_of: int) (Column_of: int)

datatype errors_Error =
  CueError (errors_Positions: "token_Pos list") (Path_of: "string list") (Error_of: string)

datatype engine_error =
  EngineError (errors_Errors: "errors_Error list") (engine_Text: string)

text \<open>
  The engine's operations are parameters of the model: \<open>'c\<close> is \<^verbatim>\<open>*cue.Context\<close>,
  \<open>'v\<close> is \<^verbatim>\<open>cue.Value\<close>, \<open>'a\<close> and \<open>'f\<close> are the syntax trees that the JSON and the
  YAML front end return. \<open>LookupPath\<close> stands for \<^verbatim>\<open>LookupPath(cue.ParsePath(name))\<close> and
  \<open>Validate_Concrete\<close> for \<^verbatim>\<open>Validate(cue.Concrete(true))\<close>.
\<close>

record ('c, 'v, 'a, 'f) cue =
  json_Extract :: "string \<Rightarrow> bytes \<Rightarrow> engine_error + 'a"
  yaml_Extract :: "string \<Rightarrow> bytes \<Rightarrow> engine_error + 'f"
  BuildExpr :: "'c \<Rightarrow> 'a \<Rightarrow> 'v"
  BuildFile :: "'c \<Rightarrow> 'f \<Rightarrow> 'v"
  Err :: "'v \<Rightarrow> engine_error option"
  LookupPath :: "'v \<Rightarrow> string \<Rightarrow> 'v"
  Exists :: "'v \<Rightarrow> bool"
  Unify :: "'v \<Rightarrow> 'v \<Rightarrow> 'v"
  Validate_Concrete :: "'v \<Rightarrow> engine_error option"

section \<open>Errors of the package\<close>

text \<open>
  One constructor for each \<^verbatim>\<open>fmt.Errorf\<close> of the package, one for an error of the engine
  and one for an error of the os and io packages (by its text). \<open>Error\<close> is the method
  \<^verbatim>\<open>Error()\<close>: the format string of the source, with \<^verbatim>\<open>%w\<close> the text of the wrapped error.
\<close>

datatype error =
    Engine engine_error
  | IOError string
  | UnknownSourceType int
  | ReadingFile string error
  | ReaderIsNil
  | ReadingFromReader error
  | DataIsNil
  | UnsupportedFormat int
  | ParsingJSON error
  | ParsingYAML error
  | ReadingInput error
  | SchemaDoesNotDefine string

fun Error :: "error \<Rightarrow> string" where
  "Error (Engine e) = engine_Text e"
| "Error (IOError m) = m"
| "Error (UnknownSourceType t) = ''unknown source type: '' @ itoa t"
| "Error (ReadingFile p e) = ''reading file '' @ p @ '': '' @ Error e"
| "Error ReaderIsNil = ''reader is nil''"
| "Error (ReadingFromReader e) = ''reading from reader: '' @ Error e"
| "Error DataIsNil = ''data is nil''"
| "Error (UnsupportedFormat f) = ''unsupported format: '' @ itoa f"
| "Error (ParsingJSON e) = ''parsing JSON: '' @ Error e"
| "Error (ParsingYAML e) = ''parsing YAML: '' @ Error e"
| "Error (ReadingInput e) = ''reading input: '' @ Error e"
| "Error (SchemaDoesNotDefine n) = ''schema does not define '' @ n"

section \<open>bridge.go: the data model\<close>

text \<open>\<^verbatim>\<open>InputSourceType\<close> and \<^verbatim>\<open>DataFormat\<close> are Go ints with named constants.\<close>

definition SourceFile :: int where "SourceFile = 0"
definition SourceReader :: int where "SourceReader = 1"
definition SourceBytes :: int where "SourceBytes = 2"

definition FormatJSON :: int where "FormatJSON = 0"
definition FormatYAML :: int where "FormatYAML = 1"

text \<open>
  An \<^verbatim>\<open>io.Reader\<close> is the sequence of the outcomes of its successive \<^verbatim>\<open>Read\<close> calls:
  some bytes, or an error other than \<^verbatim>\<open>io.EOF\<close>; after the last outcome \<^verbatim>\<open>Read\<close>
  reports \<^verbatim>\<open>io.EOF\<close>. Only readers that reach the end or fail after finitely many reads
  are covered. The field of the input is an interface value, which can be nil.
\<close>

datatype read_outcome = Chunk bytes | Fault string

type_synonym Reader = "read_outcome list"

record ('c, 'v) Validator =
  schemaPath :: string
  definitionName :: string
  ctx :: 'c
  compiledSchema :: 'v

text \<open>
  The field \<^verbatim>\<open>Name\<close> of \<^verbatim>\<open>ValidationInput\<close> is \<open>Name_input\<close> here, the one of
  \<^verbatim>\<open>ValidationResult\<close> keeps its name.
\<close>

record ValidationInput =
  SourceType :: int
  Name_input :: string
  FilePath :: string
  Reader :: "Reader option"
  Data :: "char slice"
  Format :: int

record ValidationError =
  Line :: int
  Column :: int
  Path :: string
  Message :: string

record ValidationResult =
  Name :: string
  Valid :: bool
  Errors :: "ValidationError slice"

text \<open>The zero value \<^verbatim>\<open>ValidationResult{}\<close>.\<close>

definition zero_ValidationResult :: ValidationResult where
  "zero_ValidationResult = \<lparr>Name = [], Valid = False, Errors = None\<rparr>"

section \<open>input.go: input acquisition\<close>

text \<open>
  \<^verbatim>\<open>io.ReadAll\<close>: read until \<^verbatim>\<open>io.EOF\<close> (no error) or until the first error, and return
  the bytes read so far with it. Reading consumes the reader: the second component is the
  reader after the call, that is, the outcomes that were not read.
\<close>

fun ReadAll_loop :: "bytes \<Rightarrow> Reader \<Rightarrow> (bytes \<times> error option) \<times> Reader" where
  "ReadAll_loop b [] = ((b, None), [])"
| "ReadAll_loop b (Chunk d # r) = ReadAll_loop (b @ d) r"
| "ReadAll_loop b (Fault m # r) = ((b, Some (IOError m)), r)"

definition io_ReadAll :: "Reader \<Rightarrow> (bytes \<times> error option) \<times> Reader" where
  "io_ReadAll r = ReadAll_loop [] r"

text \<open>\<^verbatim>\<open>os.ReadFile\<close> is the parameter \<open>fs\<close>: the file system at the time of the call.\<close>

type_synonym filesystem = "string \<Rightarrow> error + bytes"

definition readFromFile :: "filesystem \<Rightarrow> string \<Rightarrow> error + bytes" where
  "readFromFile fs filePath =
     (case fs filePath of
        Inl err \<Rightarrow> Inl (ReadingFile filePath err)
      | Inr data \<Rightarrow> Inr data)"

text \<open>
  \<^verbatim>\<open>readFromReader\<close> returns the bytes or the error; what it leaves of the reader is
  \<open>snd (io_ReadAll r)\<close>.
\<close>

definition readFromReader :: "Reader option \<Rightarrow> error + bytes" where
  "readFromReader reader =
     (case reader of
        None \<Rightarrow> Inl ReaderIsNil
      | Some r \<Rightarrow>
          (case fst (io_ReadAll r) of
             (data, Some err) \<Rightarrow> Inl (ReadingFromReader err)
           | (data, None) \<Rightarrow> Inr data))"

definition readFromBytes :: "char slice \<Rightarrow> error + bytes" where
  "readFromBytes data =
     (case data of
        None \<Rightarrow> Inl DataIsNil
      | Some d \<Rightarrow> Inr d)"

definition readInput :: "filesystem \<Rightarrow> ValidationInput \<Rightarrow> error + bytes" where
  "readInput fs input =
     (if SourceType input = SourceFile then readFromFile fs (FilePath input)
      else if SourceType input = SourceReader then readFromReader (Reader input)
      else if SourceType input = SourceBytes then readFromBytes (Data input)
      else Inl (UnknownSourceType (SourceType input)))"

section \<open>The document parser\<close>

definition parseJSON ::
  "('c, 'v, 'a, 'f) cue \<Rightarrow> 'c \<Rightarrow> bytes \<Rightarrow> string \<Rightarrow> error + 'v" where
  "parseJSON E c data filename =
     (case json_Extract E filename data of
        Inl err \<Rightarrow> Inl (ParsingJSON (Engine err))
      | Inr expr \<Rightarrow> Inr (BuildExpr E c expr))"

definition parseYAML ::
  "('c, 'v, 'a, 'f) cue \<Rightarrow> 'c \<Rightarrow> bytes \<Rightarrow> string \<Rightarrow> error + 'v" where
  "parseYAML E c data filename =
     (case yaml_Extract E filename data of
        Inl err \<Rightarrow> Inl (ParsingYAML (Engine err))
      | Inr file \<Rightarrow> Inr (BuildFile E c file))"

definition parseData ::
  "('c, 'v, 'a, 'f) cue \<Rightarrow> 'c \<Rightarrow> bytes \<Rightarrow> int \<Rightarrow> string \<Rightarrow> error + 'v" where
  "parseData E c data format filename =
     (if format = FormatJSON then parseJSON E c data filename
      else if format = FormatYAML then parseYAML E c data filename
      else Inl (UnsupportedFormat format))"

section \<open>The error extractor\<close>

definition isValidPathElement :: "string \<Rightarrow> bool" where
  "isValidPathElement p = (p \<noteq> [] \<and> \<not> HasPrefix p ''['' \<and> p \<noteq> ''#Config'')"

fun formatPath_loop :: "string slice \<Rightarrow> string list \<Rightarrow> string slice" where
  "formatPath_loop parts [] = parts"
| "formatPath_loop parts (p # ps) =
     (if \<not> isValidPathElement p then formatPath_loop parts ps
      else formatPath_loop (append_slice parts (Trim p [quote])) ps)"

definition formatPath :: "string list \<Rightarrow> string" where
  "formatPath path = Join (elems (formatPath_loop None path)) ''.''"

definition extractFieldPath :: "errors_Error \<Rightarrow> string" where
  "extractFieldPath e =
     (let path = Path_of e in if length path = 0 then [] else formatPath path)"

fun extractLineNumber_loop :: "token_Pos list \<Rightarrow> int" where
  "extractLineNumber_loop [] = 0"
| "extractLineNumber_loop (pos # positions) =
     (if Line_of pos > 0 then Line_of pos else extractLineNumber_loop positions)"

definition extractLineNumber :: "errors_Error \<Rightarrow> int" where
  "extractLineNumber e = extractLineNumber_loop (errors_Positions e)"

fun extractColumnNumber_loop :: "token_Pos list \<Rightarrow> int" where
  "extractColumnNumber_loop [] = 0"
| "extractColumnNumber_loop (pos # positions) =
     (if Column_of pos > 0 then Column_of pos else extractColumnNumber_loop positions)"

definition extractColumnNumber :: "errors_Error \<Rightarrow> int" where
  "extractColumnNumber e = extractColumnNumber_loop (errors_Positions e)"

definition extractSingleError :: "errors_Error \<Rightarrow> ValidationError" where
  "extractSingleError e =
     \<lparr>Line = extractLineNumber e, Column = extractColumnNumber e,
      Path = extractFieldPath e, Message = Error_of e\<rparr>"

fun extractValidationErrors_loop ::
  "ValidationError slice \<Rightarrow> errors_Error list \<Rightarrow> ValidationError slice" where
  "extractValidationErrors_loop validationErrors [] = validationErrors"
| "extractValidationErrors_loop validationErrors (e # es) =
     extractValidationErrors_loop (append_slice validationErrors (extractSingleError e)) es"

definition extractValidationErrors :: "engine_error \<Rightarrow> ValidationError slice" where
  "extractValidationErrors err =
     (let cueErrors = errors_Errors err in
      if length cueErrors = 0
      then Some [\<lparr>Line = 0, Column = 0, Path = [], Message = engine_Text err\<rparr>]
      else extractValidationErrors_loop None cueErrors)"

section \<open>The validator\<close>

definition createErrorResult :: "string \<Rightarrow> string \<Rightarrow> ValidationResult" where
  "createErrorResult name message =
     \<lparr>Name = name, Valid = False,
      Errors = Some [\<lparr>Line = 0, Column = 0, Path = [], Message = message\<rparr>]\<rparr>"

definition createValidationErrorResult :: "string \<Rightarrow> engine_error \<Rightarrow> ValidationResult" where
  "createValidationErrorResult name err =
     \<lparr>Name = name, Valid = False, Errors = extractValidationErrors err\<rparr>"

text \<open>
  \<^verbatim>\<open>validate\<close> returns the Go pair: the result and the process error (\<open>None\<close> is nil).
\<close>

definition validate ::
  "('c, 'v, 'a, 'f) cue \<Rightarrow> filesystem \<Rightarrow> ('c, 'v) Validator \<Rightarrow> ValidationInput
     \<Rightarrow> ValidationResult \<times> error option" where
  "validate E fs v input =
     (case readInput fs input of
        Inl err \<Rightarrow> (zero_ValidationResult, Some (ReadingInput err))
      | Inr data \<Rightarrow>
     (case parseData E (ctx v) data (Format input) (Name_input input) of
        Inl err \<Rightarrow>
          (createErrorResult (Name_input input) (''failed to parse: '' @ Error err), None)
      | Inr parsedData \<Rightarrow>
     (case Err E parsedData of
        Some perr \<Rightarrow> (createValidationErrorResult (Name_input input) perr, None)
      | None \<Rightarrow>
     (let configDef = LookupPath E (compiledSchema v) (definitionName v) in
      if \<not> Exists E configDef
      then (zero_ValidationResult, Some (SchemaDoesNotDefine (definitionName v)))
      else
     (let unified = Unify E configDef parsedData in
      case Validate_Concrete E unified of
        Some err \<Rightarrow> (createValidationErrorResult (Name_input input) err, None)
      | None \<Rightarrow> (\<lparr>Name = Name_input input, Valid = True, Errors = Some []\<rparr>, None))))))"

text \<open>\<^verbatim>\<open>Validate\<close> of bridge.go.\<close>

definition Validate ::
  "('c, 'v, 'a, 'f) cue \<Rightarrow> filesystem \<Rightarrow> ('c, 'v) Validator \<Rightarrow> ValidationInput
     \<Rightarrow> ValidationResult \<times> error option" where
  "Validate E fs v input = validate E fs v input"

section \<open>The result formatter\<close>

text \<open>
  The \<^verbatim>\<open>strings.Builder\<close> is passed as the text written so far and returned extended.
\<close>

definition formatError :: "string \<Rightarrow> ValidationError \<Rightarrow> string" where
  "formatError output err =
     (if Line err > 0 \<and> Path err \<noteq> [] then
        output @ ''  line '' @ itoa (Line err) @ '', field '' @ [quote] @ Path err @ [quote]
          @ '': '' @ Message err @ [newline]
      else if Line err > 0 then
        output @ ''  line '' @ itoa (Line err) @ '': '' @ Message err @ [newline]
      else if Path err \<noteq> [] then
        output @ ''  field '' @ [quote] @ Path err @ [quote] @ '': '' @ Message err @ [newline]
      else
        output @ ''  '' @ Message err @ [newline])"

fun formatErrors_loop :: "string \<Rightarrow> ValidationError list \<Rightarrow> string" where
  "formatErrors_loop output [] = output"
| "formatErrors_loop output (err # errs) = formatErrors_loop (formatError output err) errs"

definition formatSingleResult :: "string \<Rightarrow> ValidationResult \<Rightarrow> string" where
  "formatSingleResult output result =
     (if Valid result then output @ Name result @ '': ok'' @ [newline]
      else formatErrors_loop (output @ ''FAIL: '' @ Name result @ [newline])
             (elems (Errors result)))"

fun FormatResults_loop :: "string \<Rightarrow> ValidationResult list \<Rightarrow> string" where
  "FormatResults_loop output [] = output"
| "FormatResults_loop output (result # results) =
     FormatResults_loop (formatSingleResult output result) results"

definition FormatResults :: "ValidationResult list \<Rightarrow> string" where
  "FormatResults results = FormatResults_loop [] results"

section \<open>A small engine, file system and validator for the examples\<close>

text \<open>
  The examples below run the package against this stand-in for the engine: the document
  \<open>{}\<close> is well formed and satisfies the schema, the document \<open>[]\<close> is well formed and
  violates it, every other document is a syntax error; the schema defines \<open>#Config\<close> only.
\<close>

datatype toy_value = Document bytes | SchemaValue | Definition | Unified bytes | Missing

definition toy_syntax_error :: engine_error where
  "toy_syntax_error =
     EngineError [CueError [Pos 1 16] [] ''expected }, found EOF''] ''expected }, found EOF''"

definition toy_constraint_error :: engine_error where
  "toy_constraint_error =
     EngineError
       [CueError [Pos 0 0, Pos 3 7] [''#Config'', ''spec'', ''replicas''] ''invalid value 0'',
        CueError [] [''#Config'', ''items'', ''[1]'', [quote] @ ''my-key'' @ [quote]]
          ''conflicting values'']
       ''invalid value 0 (and 1 more errors)''"

definition toy_Extract :: "string \<Rightarrow> bytes \<Rightarrow> engine_error + bytes" where
  "toy_Extract filename data =
     (if data = ''{}'' \<or> data = ''[]'' then Inr data else Inl toy_syntax_error)"

definition toy_LookupPath :: "toy_value \<Rightarrow> string \<Rightarrow> toy_value" where
  "toy_LookupPath v name = (if v = SchemaValue \<and> name = ''#Config'' then Definition else Missing)"

definition toy_Unify :: "toy_value \<Rightarrow> toy_value \<Rightarrow> toy_value" where
  "toy_Unify d v = (case v of Document b \<Rightarrow> Unified b | _ \<Rightarrow> v)"

definition toy_Validate :: "toy_value \<Rightarrow> engine_error option" where
  "toy_Validate v = (if v = Unified ''{}'' then None else Some toy_constraint_error)"

definition toy_cue :: "(unit, toy_value, bytes, bytes) cue" where
  "toy_cue =
     \<lparr>json_Extract = toy_Extract, yaml_Extract = toy_Extract,
      BuildExpr = (\<lambda>c a. Document a), BuildFile = (\<lambda>c f. Document f),
      Err = (\<lambda>v. None), LookupPath = toy_LookupPath, Exists = (\<lambda>v. v \<noteq> Missing),
      Unify = toy_Unify, Validate_Concrete = toy_Validate\<rparr>"

definition toy_fs :: filesystem where
  "toy_fs p =
     (if p = ''config.json'' then Inr ''{}''
      else Inl (IOError (''open '' @ p @ '': no such file or directory'')))"

definition toy_validator :: "(unit, toy_value) Validator" where
  "toy_validator =
     \<lparr>schemaPath = ''schema.cue'', definitionName = ''#Config'', ctx = (),
      compiledSchema = SchemaValue\<rparr>"

text \<open>An input with every payload absent; the examples set the fields they need.\<close>

definition toy_input :: ValidationInput where
  "toy_input =
     \<lparr>SourceType = SourceBytes, Name_input = ''cfg'', FilePath = [], Reader = None,
      Data = None, Format = FormatJSON\<rparr>"

section \<open>Facts about slices and the loops\<close>

lemma elems_simps: "elems None = []" "elems (Some xs) = xs"
  by (simp_all add: elems_def)

lemmas source_tags = SourceFile_def SourceReader_def SourceBytes_def

lemmas format_tags = FormatJSON_def FormatYAML_def

text \<open>Unfolding sets for running the package on the examples.\<close>

lemmas toy_engine =
  toy_cue_def toy_Extract_def toy_LookupPath_def toy_Unify_def toy_Validate_def
  toy_fs_def toy_validator_def toy_input_def toy_syntax_error_def toy_constraint_error_def

lemmas pipeline =
  Validate_def validate_def readInput_def readFromFile_def readFromReader_def readFromBytes_def
  io_ReadAll_def parseData_def parseJSON_def parseYAML_def createErrorResult_def
  createValidationErrorResult_def zero_ValidationResult_def source_tags format_tags Let_def

text \<open>
  The loop of \<^verbatim>\<open>extractValidationErrors\<close> appends one record for each sub-error, in the
  order of the list, so the result of a non-empty list is an allocated slice.
\<close>

lemma extractValidationErrors_loop_eq:
  "es \<noteq> [] \<Longrightarrow>
   extractValidationErrors_loop acc es = Some (elems acc @ map extractSingleError es)"
proof (induction es arbitrary: acc)
  case Nil
  then show ?case by simp
next
  case (Cons e es)
  show ?case
  proof (cases es)
    case Nil
    then show ?thesis by (simp add: append_slice_def)
  next
    case (Cons e' es')
    then have "es \<noteq> []" by simp
    from Cons.IH [OF this, of "append_slice acc (extractSingleError e)"]
    show ?thesis by (simp add: append_slice_def elems_simps)
  qed
qed

lemma extractValidationErrors_nonempty: "elems (extractValidationErrors err) \<noteq> []"
  by (simp add: extractValidationErrors_def Let_def extractValidationErrors_loop_eq elems_simps)

text \<open>Each position loop returns the first strictly positive entry, or 0.\<close>

lemma extractLineNumber_loop_find:
  "extractLineNumber_loop ps = (case find (\<lambda>p. 0 < Line_of p) ps of None \<Rightarrow> 0 | Some p \<Rightarrow> Line_of p)"
  by (induction ps) simp_all

lemma extractColumnNumber_loop_find:
  "extractColumnNumber_loop ps = (case find (\<lambda>p. 0 < Column_of p) ps of None \<Rightarrow> 0 | Some p \<Rightarrow> Column_of p)"
  by (induction ps) simp_all

text \<open>The loop of \<^verbatim>\<open>formatPath\<close> keeps the valid segments, trimmed, in order.\<close>

lemma formatPath_loop_eq:
  "elems (formatPath_loop parts path) =
     elems parts @ map (\<lambda>p. Trim p [quote]) (filter isValidPathElement path)"
  by (induction path arbitrary: parts) (simp_all add: append_slice_def elems_simps)

lemma isValidPathElement_iff:
  "isValidPathElement p \<longleftrightarrow> \<not> (p = [] \<or> (\<exists>t. p = CHR ''['' # t) \<or> p = ''#Config'')"
  by (cases p) (auto simp: isValidPathElement_def HasPrefix_def)

text \<open>
  What trimming the double quote does: the segment is the trimmed text between two runs of
  quotes, and the trimmed text neither starts nor ends with a quote.
\<close>

lemma takeWhile_same: "takeWhile (\<lambda>c. c = q) xs = replicate (length (takeWhile (\<lambda>c. c = q) xs)) q"
proof -
  have "\<forall>y \<in> set (takeWhile (\<lambda>c. c = q) xs). y = q"
    by (auto dest: set_takeWhileD)
  then show ?thesis by (simp add: replicate_length_same)
qed

lemma Trim_quote_shape:
  "\<exists>a b. p = replicate a quote @ Trim p [quote] @ replicate b quote"
proof -
  let ?P = "\<lambda>c. c = quote"
  let ?m = "dropWhile ?P p"
  have 1: "p = takeWhile ?P p @ ?m" by simp
  have "rev (dropWhile ?P (rev ?m)) @ rev (takeWhile ?P (rev ?m))
          = rev (takeWhile ?P (rev ?m) @ dropWhile ?P (rev ?m))"
    by (simp only: rev_append)
  also have "\<dots> = rev (rev ?m)"
    by (simp only: takeWhile_dropWhile_id)
  finally have "?m = rev (dropWhile ?P (rev ?m)) @ rev (takeWhile ?P (rev ?m))"
    by simp
  then have 3: "?m = Trim p [quote] @ rev (takeWhile ?P (rev ?m))"
    by (simp add: Trim_def)
  have 4: "rev (takeWhile ?P (rev ?m)) = replicate (length (takeWhile ?P (rev ?m))) quote"
    using takeWhile_same [of quote "rev ?m"] by (metis rev_replicate)
  have "p = replicate (length (takeWhile ?P p)) quote
              @ Trim p [quote] @ replicate (length (takeWhile ?P (rev ?m))) quote"
    using 1 3 4 takeWhile_same [of quote p] by metis
  then show ?thesis by blast
qed

lemma dropWhile_rev_nonempty: "dropWhile P (rev xs) \<noteq> [] \<Longrightarrow> xs \<noteq> []"
  by auto

lemma Trim_quote_ends:
  assumes "Trim p [quote] \<noteq> []"
  shows "hd (Trim p [quote]) \<noteq> quote \<and> last (Trim p [quote]) \<noteq> quote"
proof -
  let ?P = "\<lambda>c. c = quote"
  let ?m = "dropWhile ?P p"
  let ?d = "dropWhile ?P (rev ?m)"
  have T: "Trim p [quote] = rev ?d" by (simp add: Trim_def)
  with assms have d: "?d \<noteq> []" by simp
  then have "\<not> ?P (hd ?d)" by (rule hd_dropWhile)
  then have l: "last (Trim p [quote]) \<noteq> quote"
    using d by (simp add: T last_rev)
  from d have m: "?m \<noteq> []" by (rule dropWhile_rev_nonempty)
  then have hm: "\<not> ?P (hd ?m)" by (rule hd_dropWhile)
  have "rev ?m = takeWhile ?P (rev ?m) @ ?d" by simp
  then have "last (rev ?m) = last ?d" using d by (metis last_appendR)
  then have "hd (rev ?d) = hd ?m" using m d by (simp add: last_rev hd_rev)
  with hm T have "hd (Trim p [quote]) \<noteq> quote" by simp
  with l show ?thesis by simp
qed

text \<open>
  \<^verbatim>\<open>io.ReadAll\<close> on a reader that never fails returns everything it yields; on a reader
  that fails it returns the first fault. Every reader is of one of the two kinds.
\<close>

lemma ReadAll_loop_chunks: "ReadAll_loop b (map Chunk cs) = ((b @ concat cs, None), [])"
  by (induction cs arbitrary: b) simp_all

lemma ReadAll_loop_fault:
  "ReadAll_loop b (map Chunk cs @ Fault m # rest) = ((b @ concat cs, Some (IOError m)), rest)"
  by (induction cs arbitrary: b) simp_all

lemma Reader_shape:
  "(\<exists>cs. r = map Chunk cs) \<or> (\<exists>cs m rest. r = map Chunk cs @ Fault m # rest)"
proof (induction r)
  case Nil
  then show ?case by simp
next
  case (Cons x r)
  show ?case
  proof (cases x)
    case (Chunk d)
    from Cons.IH show ?thesis
    proof
      assume "\<exists>cs. r = map Chunk cs"
      then obtain cs where "r = map Chunk cs" ..
      with Chunk have "x # r = map Chunk (d # cs)" by simp
      then have "\<exists>cs'. x # r = map Chunk cs'" by (rule exI)
      then show ?thesis by (rule disjI1)
    next
      assume "\<exists>cs m rest. r = map Chunk cs @ Fault m # rest"
      then obtain cs m rest where "r = map Chunk cs @ Fault m # rest" by blast
      with Chunk have "x # r = map Chunk (d # cs) @ Fault m # rest" by simp
      then have "\<exists>cs' m' rest'. x # r = map Chunk cs' @ Fault m' # rest'" by (intro exI)
      then show ?thesis by (rule disjI2)
    qed
  next
    case (Fault m)
    then have "x # r = map Chunk [] @ Fault m # r" by simp
    then have "\<exists>cs' m' rest'. x # r = map Chunk cs' @ Fault m' # rest'" by (intro exI)
    then show ?thesis by (rule disjI2)
  qed
qed

lemma readFromReader_chunks: "readFromReader (Some (map Chunk cs)) = Inr (concat cs)"
  by (simp add: readFromReader_def io_ReadAll_def ReadAll_loop_chunks)

lemma readFromReader_fault:
  "readFromReader (Some (map Chunk cs @ Fault m # rest)) = Inl (ReadingFromReader (IOError m))"
  by (simp add: readFromReader_def io_ReadAll_def ReadAll_loop_fault)

text \<open>
  \<^verbatim>\<open>validate\<close> uses its input only through the bytes read, the format and the name.
\<close>

lemma validate_depends:
  assumes "readInput fs i1 = readInput fs i2"
    and "Format i1 = Format i2" and "Name_input i1 = Name_input i2"
  shows "validate E fs v i1 = validate E fs v i2"
  unfolding validate_def assms by (rule refl)

text \<open>The four ways \<^verbatim>\<open>validate\<close> returns.\<close>

lemma validate_cases:
  "(\<exists>e. validate E fs v input = (zero_ValidationResult, Some e))
   \<or> (\<exists>m. validate E fs v input = (createErrorResult (Name_input input) m, None))
   \<or> (\<exists>e. validate E fs v input = (createValidationErrorResult (Name_input input) e, None))
   \<or> validate E fs v input = (\<lparr>Name = Name_input input, Valid = True, Errors = Some []\<rparr>, None)"
  by (auto simp: validate_def Let_def split: sum.splits option.splits)

text \<open>The formatter only appends to the builder.\<close>

lemma formatError_append: "formatError out err = out @ formatError [] err"
  by (simp add: formatError_def)

lemma formatErrors_loop_eq:
  "formatErrors_loop out errs = out @ concat (map (formatError []) errs)"
proof (induction errs arbitrary: out)
  case Nil
  then show ?case by simp
next
  case (Cons err errs)
  have "formatErrors_loop out (err # errs) = formatErrors_loop (formatError out err) errs"
    by simp
  also have "\<dots> = formatError out err @ concat (map (formatError []) errs)"
    by (rule Cons.IH)
  also have "\<dots> = (out @ formatError [] err) @ concat (map (formatError []) errs)"
    using formatError_append [of out err] by simp
  finally show ?case by simp
qed


section \<open>Unsupported format tags\<close>

text \<open>
  Once the bytes are read, a format tag other than \<^verbatim>\<open>FormatJSON\<close> and \<^verbatim>\<open>FormatYAML\<close>
  makes \<^verbatim>\<open>parseData\<close> return the unsupported-format error, and \<^verbatim>\<open>validate\<close> handles
  every error of \<^verbatim>\<open>parseData\<close> in the same branch: a failing result and a nil error.
\<close>

lemma unsupported_format_general:
  assumes "readInput fs input = Inr data"
    and "Format input \<noteq> FormatJSON" and "Format input \<noteq> FormatYAML"
  shows "Validate E fs v input =
           (createErrorResult (Name_input input)
              (''failed to parse: unsupported format: '' @ itoa (Format input)), None)"
  using assms by (simp add: Validate_def validate_def parseData_def)

text \<open>
  Claim C1 says that a call whose input carries a format tag that is neither JSON nor YAML
  returns a non-nil process error (an unsupported-format error) and not a result with
  \<open>Valid = False\<close>. The code does the opposite. For the input
  \<^verbatim>\<open>ValidationInput{SourceType: SourceBytes, Name: "cfg", Data: []byte("{}"), Format: DataFormat(2)}\<close>,
  with any engine, file system and validator, \<^verbatim>\<open>Validate\<close> returns a nil process error
  and a result with \<open>Valid = False\<close> whose single record carries the text of the
  unsupported-format error.
\<close>

theorem unsupported_format_at_input:
  "Validate E fs v (toy_input\<lparr>Data := Some ''{}'', Format := 2\<rparr>) =
     (\<lparr>Name = ''cfg'', Valid = False,
       Errors = Some [\<lparr>Line = 0, Column = 0, Path = [],
         Message = ''failed to parse: unsupported format: 2''\<rparr>]\<rparr>, None)"
  by (simp add: Validate_def validate_def parseData_def readInput_def readFromBytes_def
      toy_input_def source_tags format_tags createErrorResult_def itoa_def decimal.simps digit_def)

text \<open>The same evaluation with the example engine.\<close>

theorem unsupported_format_at_input_witness:
  "snd (Validate toy_cue toy_fs toy_validator (toy_input\<lparr>Data := Some ''{}'', Format := 2\<rparr>))
     = None
   \<and> \<not> Valid (fst (Validate toy_cue toy_fs toy_validator
          (toy_input\<lparr>Data := Some ''{}'', Format := 2\<rparr>)))"
  using unsupported_format_at_input [of toy_cue toy_fs toy_validator]
  by simp


section \<open>The outcomes of a call\<close>

text \<open>
  Claim C2: the outcome of every \<^verbatim>\<open>Validate\<close> call is exactly one of: a nil process error
  with a result that has \<open>Valid = True\<close> and an empty error list; a nil process error with
  a result that has \<open>Valid = False\<close> and at least one error record; a non-nil process
  error. No call returns, as its result (that is, with a nil process error), \<open>Valid = False\<close>
  with an empty error list. The result that accompanies a non-nil process error is not an
  outcome of its own; the statement about it is C9.
\<close>

theorem Validate_outcome:
  "let (r, perr) = Validate E fs v input;
       success = (perr = None \<and> Valid r \<and> elems (Errors r) = []);
       failure = (perr = None \<and> \<not> Valid r \<and> elems (Errors r) \<noteq> []);
       process_error = (perr \<noteq> None)
   in (success \<or> failure \<or> process_error)
      \<and> \<not> (success \<and> failure) \<and> \<not> (success \<and> process_error) \<and> \<not> (failure \<and> process_error)
      \<and> \<not> (perr = None \<and> \<not> Valid r \<and> elems (Errors r) = [])"
  using validate_cases [of E fs v input] extractValidationErrors_nonempty
  by (auto simp: Validate_def Let_def createErrorResult_def createValidationErrorResult_def
      elems_simps zero_ValidationResult_def)

text \<open>
  Example: the document \<open>[]\<close> violates the schema of the example engine; the call returns a
  nil process error, \<open>Valid = False\<close> and a non-empty error list.
\<close>

theorem Validate_outcome_witness:
  "snd (Validate toy_cue toy_fs toy_validator (toy_input\<lparr>Data := Some ''[]''\<rparr>)) = None
   \<and> \<not> Valid (fst (Validate toy_cue toy_fs toy_validator (toy_input\<lparr>Data := Some ''[]''\<rparr>)))
   \<and> elems (Errors (fst (Validate toy_cue toy_fs toy_validator
          (toy_input\<lparr>Data := Some ''[]''\<rparr>)))) \<noteq> []"
proof -
  let ?V = "Validate toy_cue toy_fs toy_validator (toy_input\<lparr>Data := Some ''[]''\<rparr>)"
  have h: "snd ?V = None \<and> \<not> Valid (fst ?V)"
    by (simp add: pipeline toy_engine)
  from Validate_outcome [of toy_cue toy_fs toy_validator "toy_input\<lparr>Data := Some ''[]''\<rparr>"] h
  show ?thesis
    by (auto simp: Let_def split: prod.splits)
qed


section \<open>Malformed documents\<close>

text \<open>
  Claim C3: when the bytes of the input are read successfully and the front end of the
  declared format (JSON or YAML) reports a syntax error for them, \<^verbatim>\<open>Validate\<close> returns a
  nil process error and a failing result, named after the input, with exactly one record:
  line 0, column 0, empty path, and the message \<open>failed to parse: parsing JSON: \<close> (or
  \<open>parsing YAML: \<close>) followed by the text of the front end's error.
\<close>

theorem malformed_document_result:
  assumes "readInput fs input = Inr data"
    and "(Format input = FormatJSON \<and> json_Extract E (Name_input input) data = Inl e)
       \<or> (Format input = FormatYAML \<and> yaml_Extract E (Name_input input) data = Inl e)"
  shows "Validate E fs v input =
           (\<lparr>Name = Name_input input, Valid = False,
             Errors = Some [\<lparr>Line = 0, Column = 0, Path = [],
               Message = ''failed to parse: ''
                 @ (if Format input = FormatJSON then ''parsing JSON: '' else ''parsing YAML: '')
                 @ engine_Text e\<rparr>]\<rparr>, None)"
  using assms
  by (auto simp: Validate_def validate_def parseData_def parseJSON_def parseYAML_def
      createErrorResult_def format_tags)

text \<open>Example: the unterminated JSON document \<open>{\<close> from a buffer.\<close>

theorem malformed_document_result_witness:
  "readInput toy_fs (toy_input\<lparr>Data := Some ''{''\<rparr>) = Inr ''{''
   \<and> Format (toy_input\<lparr>Data := Some ''{''\<rparr>) = FormatJSON
   \<and> json_Extract toy_cue (Name_input (toy_input\<lparr>Data := Some ''{''\<rparr>)) ''{'' = Inl toy_syntax_error
   \<and> Validate toy_cue toy_fs toy_validator (toy_input\<lparr>Data := Some ''{''\<rparr>) =
       (\<lparr>Name = ''cfg'', Valid = False,
         Errors = Some [\<lparr>Line = 0, Column = 0, Path = [],
           Message = ''failed to parse: parsing JSON: expected }, found EOF''\<rparr>]\<rparr>, None)"
proof -
  let ?i = "toy_input\<lparr>Data := Some ''{''\<rparr>"
  have r: "readInput toy_fs ?i = Inr ''{''"
    by (simp add: readInput_def readFromBytes_def toy_input_def source_tags)
  have f: "Format ?i = FormatJSON"
    by (simp add: toy_input_def)
  have x: "json_Extract toy_cue (Name_input ?i) ''{'' = Inl toy_syntax_error"
    by (simp add: toy_cue_def toy_Extract_def)
  from f x have d: "(Format ?i = FormatJSON \<and> json_Extract toy_cue (Name_input ?i) ''{'' = Inl toy_syntax_error)
       \<or> (Format ?i = FormatYAML \<and> yaml_Extract toy_cue (Name_input ?i) ''{'' = Inl toy_syntax_error)"
    by simp
  from malformed_document_result [OF r d, of toy_validator] r f x
  show ?thesis by (simp add: toy_input_def toy_syntax_error_def)
qed


section \<open>The three input sources\<close>

text \<open>
  Claim C4: for every byte content and every validator, the three sources are equivalent.
  With the name and the format of the input fixed, \<^verbatim>\<open>Validate\<close> returns the same pair of
  result and process error for a file whose content is the bytes, for a stream handle that
  yields the bytes (in any division into reads) and for a buffer that holds them.
\<close>

theorem sources_equivalent:
  assumes "fs path = Inr (concat cs)"
  shows "Validate E fs v (input\<lparr>SourceType := SourceFile, FilePath := path\<rparr>)
           = Validate E fs v (input\<lparr>SourceType := SourceReader, Reader := Some (map Chunk cs)\<rparr>)
       \<and> Validate E fs v (input\<lparr>SourceType := SourceReader, Reader := Some (map Chunk cs)\<rparr>)
           = Validate E fs v (input\<lparr>SourceType := SourceBytes, Data := Some (concat cs)\<rparr>)"
proof -
  have f: "readInput fs (input\<lparr>SourceType := SourceFile, FilePath := path\<rparr>) = Inr (concat cs)"
    using assms by (simp add: readInput_def readFromFile_def)
  have r: "readInput fs (input\<lparr>SourceType := SourceReader, Reader := Some (map Chunk cs)\<rparr>)
             = Inr (concat cs)"
    by (simp add: readInput_def source_tags readFromReader_chunks)
  have b: "readInput fs (input\<lparr>SourceType := SourceBytes, Data := Some (concat cs)\<rparr>)
             = Inr (concat cs)"
    by (simp add: readInput_def source_tags readFromBytes_def)
  have "validate E fs v (input\<lparr>SourceType := SourceFile, FilePath := path\<rparr>)
          = validate E fs v (input\<lparr>SourceType := SourceReader, Reader := Some (map Chunk cs)\<rparr>)"
    by (rule validate_depends) (simp_all add: f r)
  moreover
  have "validate E fs v (input\<lparr>SourceType := SourceReader, Reader := Some (map Chunk cs)\<rparr>)
          = validate E fs v (input\<lparr>SourceType := SourceBytes, Data := Some (concat cs)\<rparr>)"
    by (rule validate_depends) (simp_all add: r b)
  ultimately show ?thesis
    by (simp add: Validate_def)
qed

text \<open>
  Example: the document \<open>{}\<close> as the file \<open>config.json\<close>, as a stream of two reads and as a
  buffer.
\<close>

theorem sources_equivalent_witness:
  "toy_fs ''config.json'' = Inr (concat [''{'', ''}''])
   \<and> Validate toy_cue toy_fs toy_validator
        (toy_input\<lparr>SourceType := SourceFile, FilePath := ''config.json''\<rparr>)
     = Validate toy_cue toy_fs toy_validator
        (toy_input\<lparr>SourceType := SourceReader, Reader := Some [Chunk ''{'', Chunk ''}'']\<rparr>)
   \<and> Validate toy_cue toy_fs toy_validator
        (toy_input\<lparr>SourceType := SourceReader, Reader := Some [Chunk ''{'', Chunk ''}'']\<rparr>)
     = Validate toy_cue toy_fs toy_validator
        (toy_input\<lparr>SourceType := SourceBytes, Data := Some ''{}''\<rparr>)"
proof -
  have h: "toy_fs ''config.json'' = Inr (concat [''{'', ''}''])"
    by (simp add: toy_fs_def)
  from sources_equivalent [where fs = toy_fs and path = "''config.json''"
      and cs = "[''{'', ''}'']" and E = toy_cue and v = toy_validator and input = toy_input] h
  show ?thesis by simp
qed


section \<open>The error extractor\<close>

text \<open>
  Claim C5: for every engine error, if it exposes no sub-error the extractor returns exactly
  one record with line 0, column 0, empty path and the full text of the error as message;
  otherwise it returns one record for each sub-error, in the order of the sub-errors, whose
  line is the line of the first position with a strictly positive line (else 0) and whose
  column is the column of the first position with a strictly positive column (else 0).
  The output is never empty.
\<close>

theorem extractValidationErrors_spec:
  "(errors_Errors err = [] \<longrightarrow>
      extractValidationErrors err =
        Some [\<lparr>Line = 0, Column = 0, Path = [], Message = engine_Text err\<rparr>])
   \<and> (errors_Errors err \<noteq> [] \<longrightarrow>
      extractValidationErrors err =
        Some (map (\<lambda>e.
          \<lparr>Line = (case find (\<lambda>p. 0 < Line_of p) (errors_Positions e) of
                     None \<Rightarrow> 0 | Some p \<Rightarrow> Line_of p),
           Column = (case find (\<lambda>p. 0 < Column_of p) (errors_Positions e) of
                     None \<Rightarrow> 0 | Some p \<Rightarrow> Column_of p),
           Path = extractFieldPath e, Message = Error_of e\<rparr>) (errors_Errors err)))
   \<and> elems (extractValidationErrors err) \<noteq> []"
proof (intro conjI impI)
  assume "errors_Errors err = []"
  then show "extractValidationErrors err =
        Some [\<lparr>Line = 0, Column = 0, Path = [], Message = engine_Text err\<rparr>]"
    by (simp add: extractValidationErrors_def)
next
  assume ne: "errors_Errors err \<noteq> []"
  have single: "extractSingleError = (\<lambda>e.
          \<lparr>Line = (case find (\<lambda>p. 0 < Line_of p) (errors_Positions e) of
                     None \<Rightarrow> 0 | Some p \<Rightarrow> Line_of p),
           Column = (case find (\<lambda>p. 0 < Column_of p) (errors_Positions e) of
                     None \<Rightarrow> 0 | Some p \<Rightarrow> Column_of p),
           Path = extractFieldPath e, Message = Error_of e\<rparr>)"
    by (rule ext)
      (simp add: extractSingleError_def extractLineNumber_def extractColumnNumber_def
        extractLineNumber_loop_find extractColumnNumber_loop_find)
  from ne have "extractValidationErrors err = Some (map extractSingleError (errors_Errors err))"
    by (simp add: extractValidationErrors_def Let_def extractValidationErrors_loop_eq elems_simps)
  then show "extractValidationErrors err =
        Some (map (\<lambda>e.
          \<lparr>Line = (case find (\<lambda>p. 0 < Line_of p) (errors_Positions e) of
                     None \<Rightarrow> 0 | Some p \<Rightarrow> Line_of p),
           Column = (case find (\<lambda>p. 0 < Column_of p) (errors_Positions e) of
                     None \<Rightarrow> 0 | Some p \<Rightarrow> Column_of p),
           Path = extractFieldPath e, Message = Error_of e\<rparr>) (errors_Errors err))"
    by (simp only: single)
next
  show "elems (extractValidationErrors err) \<noteq> []"
    by (rule extractValidationErrors_nonempty)
qed

text \<open>Example: an error with two sub-errors, and a flat error.\<close>

theorem extractValidationErrors_spec_witness:
  "extractValidationErrors toy_constraint_error =
     Some [\<lparr>Line = 3, Column = 7, Path = ''spec.replicas'', Message = ''invalid value 0''\<rparr>,
           \<lparr>Line = 0, Column = 0, Path = ''items.my-key'', Message = ''conflicting values''\<rparr>]
   \<and> extractValidationErrors (EngineError [] ''unexpected failure'') =
     Some [\<lparr>Line = 0, Column = 0, Path = [], Message = ''unexpected failure''\<rparr>]"
  using extractValidationErrors_spec [of toy_constraint_error]
    extractValidationErrors_spec [of "EngineError [] ''unexpected failure''"]
  by (simp add: toy_constraint_error_def extractFieldPath_def formatPath_def
      isValidPathElement_def HasPrefix_def Trim_def quote_def append_slice_def elems_def)

text \<open>
  Claim C6: the extracted path of an error is the join with \<open>.\<close> of the segments of its raw
  path that remain after dropping every segment that is empty, begins with \<open>[\<close> or equals
  the literal \<open>#Config\<close>, each remaining segment trimmed of its surrounding double quotes.
  The extractor takes no validator: the literal is dropped whatever the definition name is,
  and no other definition name is dropped.
\<close>

theorem formatPath_spec:
  "extractFieldPath e =
     Join (map (\<lambda>p. Trim p [quote])
            (filter (\<lambda>p. \<not> (p = [] \<or> (\<exists>t. p = CHR ''['' # t) \<or> p = ''#Config''))
              (Path_of e))) ''.''
   \<and> formatPath (Path_of e) = extractFieldPath e"
proof -
  have f: "formatPath path =
     Join (map (\<lambda>p. Trim p [quote])
            (filter (\<lambda>p. \<not> (p = [] \<or> (\<exists>t. p = CHR ''['' # t) \<or> p = ''#Config'')) path)) ''.''"
    for path
    using isValidPathElement_iff
    by (simp add: formatPath_def formatPath_loop_eq elems_simps cong: filter_cong)
  have e: "extractFieldPath e = formatPath (Path_of e)"
    by (cases "Path_of e") (simp_all add: extractFieldPath_def Let_def formatPath_def elems_simps)
  show ?thesis using f [of "Path_of e"] e by simp
qed

text \<open>
  Example: the segment \<open>#Service\<close> stays, the literal \<open>#Config\<close>, the index \<open>[0]\<close> and the
  empty segment are dropped, the quoted key loses its quotes.
\<close>

theorem formatPath_spec_witness:
  "extractFieldPath
     (CueError [] [''#Service'', ''#Config'', ''spec'', ''[0]'', [], CHR 0x22 # ''my-key'' @ [CHR 0x22]]
        ''conflicting values'')
   = ''#Service.spec.my-key''"
  using formatPath_spec [of "CueError []
      [''#Service'', ''#Config'', ''spec'', ''[0]'', [], CHR 0x22 # ''my-key'' @ [CHR 0x22]]
      ''conflicting values''"]
  by (simp add: Trim_def quote_def)


section \<open>The result formatter\<close>

text \<open>
  Claim C7: for every error record of an invalid result the formatter writes exactly one
  line, chosen by the fields present, the combined case first: a positive line and a
  non-empty path give \<open>  line N, field "path": message\<close>; a positive line and an empty path
  give \<open>  line N: message\<close>; no positive line and a non-empty path give
  \<open>  field "path": message\<close>; otherwise \<open>  message\<close>. A valid result is written as
  \<open>name: ok\<close>; an invalid one as \<open>FAIL: name\<close> followed by the lines of its errors in their
  order. Every line ends with a newline.
\<close>

theorem formatter_spec:
  "(0 < Line err \<and> Path err \<noteq> [] \<longrightarrow>
      formatError output err =
        output @ ''  line '' @ itoa (Line err) @ '', field '' @ [quote] @ Path err @ [quote]
          @ '': '' @ Message err @ [newline])
   \<and> (0 < Line err \<and> Path err = [] \<longrightarrow>
      formatError output err =
        output @ ''  line '' @ itoa (Line err) @ '': '' @ Message err @ [newline])
   \<and> (\<not> 0 < Line err \<and> Path err \<noteq> [] \<longrightarrow>
      formatError output err =
        output @ ''  field '' @ [quote] @ Path err @ [quote] @ '': '' @ Message err @ [newline])
   \<and> (\<not> 0 < Line err \<and> Path err = [] \<longrightarrow>
      formatError output err = output @ ''  '' @ Message err @ [newline])
   \<and> (Valid result \<longrightarrow>
      formatSingleResult output result = output @ Name result @ '': ok'' @ [newline])
   \<and> (\<not> Valid result \<longrightarrow>
      formatSingleResult output result =
        output @ ''FAIL: '' @ Name result @ [newline]
          @ concat (map (formatError []) (elems (Errors result))))"
  by (simp add: formatError_def formatSingleResult_def formatErrors_loop_eq)

text \<open>Example: the four kinds of record, a valid result and an invalid one.\<close>

theorem formatter_spec_witness:
  "formatError [] \<lparr>Line = 5, Column = 0, Path = ''replicas'', Message = ''too small''\<rparr>
     = ''  line 5, field '' @ [CHR 0x22] @ ''replicas'' @ [CHR 0x22] @ '': too small'' @ [CHR 0x0A]
   \<and> formatError [] \<lparr>Line = 5, Column = 0, Path = [], Message = ''too small''\<rparr>
     = ''  line 5: too small'' @ [CHR 0x0A]
   \<and> formatError [] \<lparr>Line = 0, Column = 0, Path = ''replicas'', Message = ''too small''\<rparr>
     = ''  field '' @ [CHR 0x22] @ ''replicas'' @ [CHR 0x22] @ '': too small'' @ [CHR 0x0A]
   \<and> formatError [] \<lparr>Line = 0, Column = 0, Path = [], Message = ''too small''\<rparr>
     = ''  too small'' @ [CHR 0x0A]
   \<and> formatSingleResult [] \<lparr>Name = ''config.yaml'', Valid = True, Errors = Some []\<rparr>
     = ''config.yaml: ok'' @ [CHR 0x0A]
   \<and> formatSingleResult []
       \<lparr>Name = ''config.json'', Valid = False,
        Errors = Some [\<lparr>Line = 12, Column = 3, Path = [], Message = ''first''\<rparr>,
                       \<lparr>Line = 0, Column = 0, Path = [], Message = ''second''\<rparr>]\<rparr>
     = ''FAIL: config.json'' @ [CHR 0x0A] @ ''  line 12: first'' @ [CHR 0x0A]
         @ ''  second'' @ [CHR 0x0A]"
  using
    formatter_spec [of "\<lparr>Line = 5, Column = 0, Path = ''replicas'', Message = ''too small''\<rparr>" "[]"
      "\<lparr>Name = ''config.yaml'', Valid = True, Errors = Some []\<rparr>"]
    formatter_spec [of "\<lparr>Line = 5, Column = 0, Path = [], Message = ''too small''\<rparr>" "[]"
      "\<lparr>Name = ''config.json'', Valid = False,
        Errors = Some [\<lparr>Line = 12, Column = 3, Path = [], Message = ''first''\<rparr>,
                       \<lparr>Line = 0, Column = 0, Path = [], Message = ''second''\<rparr>]\<rparr>"]
    formatter_spec [of "\<lparr>Line = 0, Column = 0, Path = ''replicas'', Message = ''too small''\<rparr>" "[]"
      "\<lparr>Name = ''config.yaml'', Valid = True, Errors = Some []\<rparr>"]
    formatter_spec [of "\<lparr>Line = 0, Column = 0, Path = [], Message = ''too small''\<rparr>" "[]"
      "\<lparr>Name = ''config.yaml'', Valid = True, Errors = Some []\<rparr>"]
  by (simp add: itoa_def decimal.simps digit_def quote_def newline_def elems_def formatError_def)


section \<open>Absent buffers and handles\<close>

text \<open>
  Claim C8, as stated, says that for the stream tag acquisition drains the handle completely
  whenever the handle is present. It does not when a read fails: for a present handle whose
  second read reports a fault, acquisition stops there and fails with a read error, and the
  bytes after the fault are left unread in the handle.
\<close>

theorem stream_fault_counterexample:
  "Reader (toy_input\<lparr>SourceType := SourceReader,
             Reader := Some [Chunk ''ab'', Fault ''timeout'', Chunk ''cd'']\<rparr>) \<noteq> None
   \<and> readInput toy_fs
       (toy_input\<lparr>SourceType := SourceReader,
          Reader := Some [Chunk ''ab'', Fault ''timeout'', Chunk ''cd'']\<rparr>)
       = Inl (ReadingFromReader (IOError ''timeout''))
   \<and> snd (io_ReadAll [Chunk ''ab'', Fault ''timeout'', Chunk ''cd'']) = [Chunk ''cd'']"
  by (simp add: readInput_def readFromReader_def io_ReadAll_def source_tags)

text \<open>
  Claim C8, amended: for the buffer tag, acquisition fails with the contract error
  \<open>data is nil\<close> exactly when the buffer is nil, and otherwise returns the buffer unchanged,
  an empty buffer included. For the stream tag, acquisition fails with the contract error
  \<open>reader is nil\<close> exactly when the handle is nil; with a handle present it drains the
  handle (nothing is left to read) and returns all its bytes when no read fails, and it
  stops at the first fault, leaving the rest unread, and fails with a read error that wraps
  the fault (not a contract error) when a read fails.
\<close>

theorem readInput_contract:
  "(SourceType input = SourceBytes \<longrightarrow>
      (readInput fs input = Inl DataIsNil \<longleftrightarrow> Data input = None)
      \<and> (Data input = Some d \<longrightarrow> readInput fs input = Inr d))
   \<and> (SourceType input = SourceReader \<longrightarrow>
      (readInput fs input = Inl ReaderIsNil \<longleftrightarrow> Reader input = None)
      \<and> (Reader input = Some (map Chunk cs) \<longrightarrow>
            readInput fs input = Inr (concat cs) \<and> snd (io_ReadAll (map Chunk cs)) = [])
      \<and> (Reader input = Some (map Chunk cs @ Fault m # rest) \<longrightarrow>
            readInput fs input = Inl (ReadingFromReader (IOError m))
            \<and> snd (io_ReadAll (map Chunk cs @ Fault m # rest)) = rest))"
proof (intro conjI impI)
  assume "SourceType input = SourceBytes"
  then show "readInput fs input = Inl DataIsNil \<longleftrightarrow> Data input = None"
    by (simp add: readInput_def source_tags readFromBytes_def split: option.splits)
next
  assume "SourceType input = SourceBytes" "Data input = Some d"
  then show "readInput fs input = Inr d"
    by (simp add: readInput_def source_tags readFromBytes_def)
next
  assume t: "SourceType input = SourceReader"
  show "readInput fs input = Inl ReaderIsNil \<longleftrightarrow> Reader input = None"
  proof (cases "Reader input")
    case None
    with t show ?thesis by (simp add: readInput_def source_tags readFromReader_def)
  next
    case (Some r)
    from Reader_shape [of r] have "readFromReader (Some r) \<noteq> Inl ReaderIsNil"
      by (auto simp: readFromReader_chunks readFromReader_fault)
    with t Some show ?thesis by (simp add: readInput_def source_tags)
  qed
next
  assume "SourceType input = SourceReader" "Reader input = Some (map Chunk cs)"
  then show "readInput fs input = Inr (concat cs)"
    by (simp add: readInput_def source_tags readFromReader_chunks)
next
  assume "SourceType input = SourceReader" "Reader input = Some (map Chunk cs @ Fault m # rest)"
  then show "readInput fs input = Inl (ReadingFromReader (IOError m))"
    by (simp add: readInput_def source_tags readFromReader_fault)
next
  show "snd (io_ReadAll (map Chunk cs)) = []"
    by (simp add: io_ReadAll_def ReadAll_loop_chunks)
next
  show "snd (io_ReadAll (map Chunk cs @ Fault m # rest)) = rest"
    by (simp add: io_ReadAll_def ReadAll_loop_fault)
qed

text \<open>
  Example: an empty buffer, a nil buffer, a nil handle, a handle of two reads and a handle
  whose second read fails.
\<close>

theorem readInput_contract_witness:
  "readInput toy_fs (toy_input\<lparr>Data := Some []\<rparr>) = Inr []
   \<and> readInput toy_fs (toy_input\<lparr>Data := None\<rparr>) = Inl DataIsNil
   \<and> readInput toy_fs (toy_input\<lparr>SourceType := SourceReader, Reader := None\<rparr>) = Inl ReaderIsNil
   \<and> readInput toy_fs
       (toy_input\<lparr>SourceType := SourceReader, Reader := Some [Chunk ''ab'', Chunk ''cd'']\<rparr>)
       = Inr ''abcd''
   \<and> snd (io_ReadAll [Chunk ''ab'', Chunk ''cd'']) = []
   \<and> readInput toy_fs
       (toy_input\<lparr>SourceType := SourceReader,
          Reader := Some [Chunk ''ab'', Fault ''timeout'', Chunk ''cd'']\<rparr>)
       = Inl (ReadingFromReader (IOError ''timeout''))"
  using
    readInput_contract [where input = "toy_input\<lparr>Data := Some []\<rparr>" and fs = toy_fs and d = "[]"]
    readInput_contract [where input = "toy_input\<lparr>Data := None\<rparr>" and fs = toy_fs]
    readInput_contract [where input = "toy_input\<lparr>SourceType := SourceReader, Reader := None\<rparr>"
      and fs = toy_fs]
    readInput_contract [where input = "toy_input\<lparr>SourceType := SourceReader,
      Reader := Some [Chunk ''ab'', Chunk ''cd'']\<rparr>" and fs = toy_fs and cs = "[''ab'', ''cd'']"]
    readInput_contract [where input = "toy_input\<lparr>SourceType := SourceReader,
      Reader := Some [Chunk ''ab'', Fault ''timeout'', Chunk ''cd'']\<rparr>" and fs = toy_fs
      and cs = "[''ab'']" and m = "''timeout''" and rest = "[Chunk ''cd'']"]
  by (simp add: toy_input_def source_tags)


section \<open>The result next to a process error\<close>

text \<open>
  Claim C9: whenever \<^verbatim>\<open>Validate\<close> returns a non-nil process error, the result returned
  with it is the zero value: the name is empty (the name of the input is not echoed),
  \<open>Valid\<close> is false and the error list is nil.
\<close>

theorem Validate_process_error_zero_result:
  "snd (Validate E fs v input) \<noteq> None \<Longrightarrow>
   fst (Validate E fs v input) = zero_ValidationResult
   \<and> Name (fst (Validate E fs v input)) = []
   \<and> \<not> Valid (fst (Validate E fs v input))
   \<and> Errors (fst (Validate E fs v input)) = None"
  by (auto simp: Validate_def validate_def Let_def zero_ValidationResult_def
      split: sum.splits option.splits if_splits)

text \<open>Example: a file that does not exist.\<close>

theorem Validate_process_error_zero_result_witness:
  "snd (Validate toy_cue toy_fs toy_validator
          (toy_input\<lparr>SourceType := SourceFile, FilePath := ''/nonexistent/file.yaml''\<rparr>)) \<noteq> None
   \<and> fst (Validate toy_cue toy_fs toy_validator
          (toy_input\<lparr>SourceType := SourceFile, FilePath := ''/nonexistent/file.yaml''\<rparr>))
       = \<lparr>Name = [], Valid = False, Errors = None\<rparr>"
proof -
  let ?i = "toy_input\<lparr>SourceType := SourceFile, FilePath := ''/nonexistent/file.yaml''\<rparr>"
  have h: "snd (Validate toy_cue toy_fs toy_validator ?i) \<noteq> None"
    by (simp add: pipeline toy_engine)
  from Validate_process_error_zero_result [OF h] h show ?thesis
    by (simp add: zero_ValidationResult_def)
qed


end
